theory Spec2Isabelle
  imports Main "HOL-Library.Multiset"
begin

section \<open>Python values used by the research assistant\<close>

text \<open>
  The repository is Python. Strings are lists of characters; a character of this model
  is a code point below 256, and \<open>length\<close> is Python's \<open>len\<close>. An exception is a value:
  a function that can raise returns \<open>py_exception + 'a\<close>, with \<open>Inl\<close> for the raise.
  The exceptions of the model are those derived from Python's \<open>Exception\<close>, which is
  what the handlers of the source (\<open>except Exception as e\<close>) catch.
\<close>

datatype py_exception = Exception string | IndexError string

type_synonym 'a raises = "py_exception + 'a"

text \<open>\<open>str(e)\<close>: the message of an exception.\<close>

fun str_of_exception :: "py_exception \<Rightarrow> string" where
  "str_of_exception (Exception m) = m"
| "str_of_exception (IndexError m) = m"

text \<open>\<open>try: body except Exception as e: handler(e)\<close>.\<close>

definition try_except :: "'a raises \<Rightarrow> (py_exception \<Rightarrow> 'a raises) \<Rightarrow> 'a raises" where
  "try_except body handler = (case body of Inl e \<Rightarrow> handler e | Inr v \<Rightarrow> Inr v)"

text \<open>\<open>d.get(key, default)\<close>, for a key whose presence is the \<open>option\<close>.\<close>

definition dict_get :: "'a option \<Rightarrow> 'a \<Rightarrow> 'a" where
  "dict_get entry dflt = (case entry of None \<Rightarrow> dflt | Some v \<Rightarrow> v)"

text \<open>\<open>xs[i]\<close> on a list: a negative index counts from the end, an index outside the list raises.\<close>

definition list_item :: "'a list \<Rightarrow> int \<Rightarrow> 'a raises" where
  "list_item xs i =
    (let j = (if i < 0 then i + int (length xs) else i)
     in if 0 \<le> j \<and> j < int (length xs) then Inr (xs ! nat j)
        else Inl (IndexError ''list index out of range''))"

text \<open>\<open>p in s\<close> on strings, and \<open>s.startswith(p)\<close>.\<close>

definition starts_with :: "string \<Rightarrow> string \<Rightarrow> bool" where
  "starts_with p s \<longleftrightarrow> take (length p) s = p"

fun py_in :: "string \<Rightarrow> string \<Rightarrow> bool" where
  "py_in p [] = (p = [])"
| "py_in p (c # cs) = (starts_with p (c # cs) \<or> py_in p cs)"

text \<open>\<open>str(n)\<close> for a count.\<close>

definition digit_char :: "nat \<Rightarrow> char" where
  "digit_char d = char_of (of_char CHR ''0'' + d)"

function str_nat :: "nat \<Rightarrow> string" where
  "str_nat n = (if n < 10 then [digit_char n] else str_nat (n div 10) @ [digit_char (n mod 10)])"
  by pat_completeness auto
termination
  by (relation "measure id") auto

declare str_nat.simps [simp del]

definition newline :: string where
  "newline = [CHR 0x0A]"

section \<open>The transcript\<close>

text \<open>
  A message of the conversation is a dictionary; the source reads its keys \<open>name\<close> and
  \<open>content\<close> with \<open>get\<close>, so either may be absent. A content that is present is a text.
\<close>

record message =
  name :: "string option"
  content :: "string option"

definition get_content :: "message \<Rightarrow> string" where
  "get_content m = dict_get (content m) ''''"

definition get_name :: "message \<Rightarrow> string" where
  "get_name m = dict_get (name m) ''''"

section \<open>The URL pattern of the Result Extractor\<close>

text \<open>
  \<open>re.findall(r'http[s]?://(?:[a-zA-Z]|[0-9]|[$-_@.&+]|[!*\\(\\),]|(?:%[0-9a-fA-F][0-9a-fA-F]))+', content)\<close>.
  The group is the last item of the pattern and is repeated greedily, so a match never
  backtracks into it: each round takes the first alternative that matches at the
  current position, and the repetition ends where none does.
\<close>

definition in_range :: "char \<Rightarrow> char \<Rightarrow> char \<Rightarrow> bool" where
  "in_range lo hi c \<longleftrightarrow> (of_char lo :: nat) \<le> of_char c \<and> (of_char c :: nat) \<le> of_char hi"

definition hex_digit :: "char \<Rightarrow> bool" where
  "hex_digit c \<longleftrightarrow>
     in_range CHR ''0'' CHR ''9'' c \<or> in_range CHR ''a'' CHR ''f'' c \<or> in_range CHR ''A'' CHR ''F'' c"

text \<open>One round of the group: the number of characters its first matching alternative takes.\<close>

fun url_atom :: "string \<Rightarrow> nat option" where
  "url_atom [] = None"
| "url_atom (c # cs) =
    (if in_range CHR ''a'' CHR ''z'' c \<or> in_range CHR ''A'' CHR ''Z'' c then Some 1
     else if in_range CHR ''0'' CHR ''9'' c then Some 1
     else if in_range CHR ''$'' CHR ''_'' c \<or> c \<in> set ''@.&+'' then Some 1
     else if c \<in> set [CHR ''!'', CHR ''*'', CHR 0x5C, CHR ''('', CHR 0x5C, CHR '')'', CHR '',''] then Some 1
     else if c = CHR ''%'' \<and> (case cs of h1 # h2 # _ \<Rightarrow> hex_digit h1 \<and> hex_digit h2 | _ \<Rightarrow> False)
       then Some 3
     else None)"

text \<open>The greedy repetition: the number of characters taken, 0 when not even one round matches.\<close>

function url_run :: "string \<Rightarrow> nat" where
  "url_run s = (case url_atom s of None \<Rightarrow> 0 | Some n \<Rightarrow> n + url_run (drop n s))"
  by pat_completeness auto
termination
proof (relation "measure length")
  show "wf (measure length)" by simp
next
  fix s :: string and n :: nat
  assume "url_atom s = Some n"
  then have "0 < n \<and> s \<noteq> []"
    by (cases s) (auto split: if_splits)
  then show "(drop n s, s) \<in> measure length" by simp
qed

declare url_run.simps [simp del]

text \<open>
  \<open>http[s]?://\<close>: the optional \<open>s\<close> is tried first; without it the next character has to
  be the colon.
\<close>

definition url_prefix :: "string \<Rightarrow> nat option" where
  "url_prefix s =
    (if starts_with ''http'' s then
       (if starts_with ''s'' (drop 4 s) \<and> starts_with ''://'' (drop 5 s) then Some 8
        else if starts_with ''://'' (drop 4 s) then Some 7
        else None)
     else None)"

text \<open>The length of the match that starts at the head of the string, if there is one.\<close>

definition match_url :: "string \<Rightarrow> nat option" where
  "match_url s =
    (case url_prefix s of
       None \<Rightarrow> None
     | Some p \<Rightarrow> (let n = url_run (drop p s) in if n = 0 then None else Some (p + n)))"

text \<open>\<open>findall\<close>: the matches from left to right, the scan resuming where a match ended.\<close>

function findall_urls :: "string \<Rightarrow> string list" where
  "findall_urls [] = []"
| "findall_urls (c # cs) =
    (case match_url (c # cs) of
       Some n \<Rightarrow> take n (c # cs) # findall_urls (drop n (c # cs))
     | None \<Rightarrow> findall_urls cs)"
  by pat_completeness auto
termination
proof (relation "measure length")
  show "wf (measure length)" by simp
next
  fix c :: char and cs :: string and n :: nat
  assume "match_url (c # cs) = Some n"
  then have "0 < n"
    by (auto simp: match_url_def Let_def split: option.splits if_splits)
  then show "(drop n (c # cs), c # cs) \<in> measure length" by simp
next
  fix c :: char and cs :: string
  show "(cs, c # cs) \<in> measure length" by simp
qed

declare findall_urls.simps [simp del]

section \<open>The Result Extractor\<close>

record finding =
  finding_content :: string
  finding_agent :: string

record results =
  findings :: "finding list"
  sources :: "string list"
  synthesis :: string
  critique :: string
  recommendations :: "string list"

text \<open>The body of the loop over the messages.\<close>

definition extract_message :: "results \<Rightarrow> message \<Rightarrow> results" where
  "extract_message res m =
    (if get_name m = ''research_agent'' then
       (let res1 = (if py_in ''http'' (get_content m)
                    then res\<lparr>sources := sources res @ findall_urls (get_content m)\<rparr>
                    else res)
        in if length (get_content m) > 50
           then res1\<lparr>findings := findings res1 @
                  [\<lparr>finding_content = get_content m, finding_agent = get_name m\<rparr>]\<rparr>
           else res1)
     else if get_name m = ''synthesis_agent'' \<and> length (get_content m) > 100
       then res\<lparr>synthesis := get_content m\<rparr>
     else if get_name m = ''critique_agent'' \<and> length (get_content m) > 100
       then res\<lparr>critique := get_content m\<rparr>
     else res)"

definition empty_results :: results where
  "empty_results =
    \<lparr>findings = [], sources = [], synthesis = '''', critique = '''', recommendations = []\<rparr>"

text \<open>
  \<open>list(set(xs))\<close> holds each element of \<open>xs\<close> once, in the iteration order of the set,
  which Python leaves open: \<open>set_order\<close> stands for it and is only ever assumed to
  rearrange its argument.
\<close>

definition list_of_set :: "('a list \<Rightarrow> 'a list) \<Rightarrow> 'a list \<Rightarrow> 'a list" where
  "list_of_set set_order xs = set_order (remdups xs)"

definition extract_research_results ::
    "(string list \<Rightarrow> string list) \<Rightarrow> message list \<Rightarrow> results" where
  "extract_research_results set_order messages =
    (let res = foldl extract_message empty_results messages
     in res\<lparr>sources := list_of_set set_order (sources res)\<rparr>)"

section \<open>The Contribution Analyzer\<close>

text \<open>
  A dictionary of counts is an association list in insertion order with one entry per
  key: \<open>d[k] = v\<close> replaces the value of a key that is there and adds a new key at the end.
\<close>

fun dict_store :: "'k \<Rightarrow> 'v \<Rightarrow> ('k \<times> 'v) list \<Rightarrow> ('k \<times> 'v) list" where
  "dict_store k v [] = [(k, v)]"
| "dict_store k v ((k', v') # d) = (if k' = k then (k, v) # d else (k', v') # dict_store k v d)"

definition count_message :: "(string \<times> nat) list \<Rightarrow> message \<Rightarrow> (string \<times> nat) list" where
  "count_message contributions m =
    (let agent_name = dict_get (name m) ''unknown''
     in dict_store agent_name (dict_get (map_of contributions agent_name) 0 + 1) contributions)"

definition analyze_agent_contributions :: "message list \<Rightarrow> (string \<times> nat) list" where
  "analyze_agent_contributions messages = foldl count_message [] messages"

section \<open>The workflow and its Session Store\<close>

text \<open>
  The transcript \<open>group_chat.messages\<close> is a Python list object that the Conversation
  Driver fills in place and that \<open>reset\<close> clears in place; \<open>conduct_research\<close> puts a
  reference to that object, not a copy of it, into the record it stores. The list
  objects therefore live in a heap, and a reference is an address. Everything else a
  record holds (the strings, the extracted results, the counts) is built afresh for
  the record and is a plain value.
\<close>

type_synonym addr = nat

text \<open>
  A \<open>datetime\<close> is known by the two things the source asks of it: its \<open>isoformat()\<close>
  and its place on the time line, in microseconds. A duration is held exactly, in
  microseconds; the float that \<open>total_seconds()\<close> returns is that count over \<open>10^6\<close>.
\<close>

record datetime =
  isoformat :: string
  microseconds :: int

definition total_seconds :: "datetime \<Rightarrow> datetime \<Rightarrow> int" where
  "total_seconds later earlier = microseconds later - microseconds earlier"

record research_record =
  topic :: string
  timestamp :: string
  duration_seconds :: int
  messages :: addr
  results :: results
  agent_contributions :: "(string \<times> nat) list"

text \<open>
  What \<open>conduct_research\<close> returns: the record of a completed run, or the dictionary
  \<open>{"error": ..., "topic": ..., "timestamp": ...}\<close> of a failed one.
\<close>

datatype research_result =
  Research_Record research_record
| Degraded_Record string string string

fun keys :: "research_result \<Rightarrow> string list" where
  "keys (Research_Record r) =
     [''topic'', ''timestamp'', ''duration_seconds'', ''messages'', ''results'',
      ''agent_contributions'']"
| "keys (Degraded_Record e t ts) = [''error'', ''topic'', ''timestamp'']"

type_synonym llm_config = "(string \<times> string) list"

record workflow =
  llm_config :: llm_config
  heap :: "addr \<Rightarrow> message list"
  group_chat_messages :: addr
  manager :: llm_config
  research_history :: "research_record list"

text \<open>
  \<open>__init__\<close>: the transcript is a new empty list, the manager is created with the
  configuration less its \<open>proxies\<close> entry, the history is empty. The manager is known
  by the configuration it was created with.
\<close>

definition init :: "llm_config \<Rightarrow> workflow" where
  "init cfg =
    \<lparr>llm_config = cfg,
     heap = (\<lambda>a. []),
     group_chat_messages = 0,
     manager = filter (\<lambda>kv. fst kv \<noteq> ''proxies'') cfg,
     research_history = []\<rparr>"

definition reset :: "workflow \<Rightarrow> workflow" where
  "reset w =
    w\<lparr>heap := (heap w)(group_chat_messages w := []),
      manager := llm_config w\<rparr>"

text \<open>\<open>research["messages"]\<close>: the transcript a stored record shows, read through its reference.\<close>

definition record_messages :: "workflow \<Rightarrow> research_record \<Rightarrow> message list" where
  "record_messages w r = heap w (messages r)"

definition initial_message :: "string \<Rightarrow> string \<Rightarrow> string" where
  "initial_message research_topic additional_instructions =
     ''Please conduct comprehensive research on the following topic:'' @ newline @
     newline @
     ''**Topic**: '' @ research_topic @ newline @
     newline @
     additional_instructions @ newline @
     newline @
     ''**Research Process**:'' @ newline @
     ''1. The Research Agent should search for relevant information from credible sources'' @ newline @
     ''2. The Synthesis Agent should aggregate and synthesize the findings'' @ newline @
     ''3. The Critique Agent should fact-check and evaluate the quality of the research'' @ newline @
     ''4. Continue the discussion until a comprehensive research deliverable is ready'' @ newline @
     newline @
     ''Please begin the research process.''"

text \<open>
  The Conversation Driver (\<open>user_proxy.initiate_chat(manager, message=...)\<close>) is the
  external agent framework: given the prompt and the transcript as it stands, it
  leaves the transcript list with new contents and either returns or raises.
\<close>

type_synonym driver = "string \<Rightarrow> message list \<Rightarrow> message list \<times> py_exception option"

text \<open>The \<open>try\<close> block of \<open>conduct_research\<close>; \<open>end_time\<close> is the second \<open>datetime.now()\<close>.\<close>

definition conduct_research_try ::
    "(string list \<Rightarrow> string list) \<Rightarrow> driver \<Rightarrow> datetime \<Rightarrow> datetime \<Rightarrow> string \<Rightarrow> string \<Rightarrow>
     workflow \<Rightarrow> research_record raises \<times> workflow" where
  "conduct_research_try set_order initiate_chat start_time end_time research_topic
     additional_instructions w =
    (let a = group_chat_messages w;
         chat = initiate_chat (initial_message research_topic additional_instructions) (heap w a);
         w1 = w\<lparr>heap := (heap w)(a := fst chat)\<rparr>
     in case snd chat of
          Some e \<Rightarrow> (Inl e, w1)
        | None \<Rightarrow>
            (let research_record =
                   \<lparr>topic = research_topic,
                    timestamp = isoformat start_time,
                    duration_seconds = total_seconds end_time start_time,
                    messages = a,
                    results = extract_research_results set_order (heap w1 a),
                    agent_contributions = analyze_agent_contributions (heap w1 a)\<rparr>
             in (Inr research_record,
                 w1\<lparr>research_history := research_history w1 @ [research_record]\<rparr>)))"

definition conduct_research ::
    "(string list \<Rightarrow> string list) \<Rightarrow> driver \<Rightarrow> datetime \<Rightarrow> datetime \<Rightarrow> string \<Rightarrow> string \<Rightarrow>
     workflow \<Rightarrow> research_result raises \<times> workflow" where
  "conduct_research set_order initiate_chat start_time end_time research_topic
     additional_instructions w =
    (let attempt = conduct_research_try set_order initiate_chat start_time end_time
                     research_topic additional_instructions w
     in (try_except (map_sum id Research_Record (fst attempt))
           (\<lambda>e. Inr (Degraded_Record (str_of_exception e) research_topic (isoformat start_time))),
         snd attempt))"

section \<open>The Report Renderer\<close>

text \<open>
  \<open>format_1f\<close> stands for Python's \<open>{:.1f}\<close> on the float duration.
\<close>

fun render_findings :: "nat \<Rightarrow> finding list \<Rightarrow> string" where
  "render_findings i [] = ''''"
| "render_findings i (f # fs) =
     ''### Finding '' @ str_nat i @ newline @ newline @ finding_content f @ newline @ newline @
     render_findings (Suc i) fs"

definition render_sources :: "string list \<Rightarrow> string" where
  "render_sources srcs =
    (if srcs \<noteq> [] then
       ''## Sources'' @ newline @ newline @ concat (map (\<lambda>source. ''- '' @ source @ newline) srcs)
     else '''')"

definition render_report :: "(int \<Rightarrow> string) \<Rightarrow> research_record \<Rightarrow> string" where
  "render_report format_1f research =
    ''# Research Report'' @ newline @
    newline @
    ''**Topic**: '' @ topic research @ newline @
    ''**Date**: '' @ timestamp research @ newline @
    ''**Duration**: '' @ format_1f (duration_seconds research) @ '' seconds'' @ newline @
    newline @
    ''## Executive Summary'' @ newline @
    newline @
    (if synthesis (results research) \<noteq> '''' then synthesis (results research)
     else ''No synthesis available.'') @ newline @
    newline @
    ''## Detailed Findings'' @ newline @
    newline @
    render_findings 1 (findings (results research)) @
    render_sources (sources (results research)) @
    (if critique (results research) \<noteq> '''' then
       newline @ ''## Critical Analysis'' @ newline @ newline @ critique (results research) @ newline
     else '''') @
    newline @ ''## Methodology'' @ newline @ newline @
    ''This research was conducted using a multi-agent system with '' @
    str_nat (length (agent_contributions research)) @ '' participating agents.'' @ newline"

definition export_research_report :: "(int \<Rightarrow> string) \<Rightarrow> workflow \<Rightarrow> int \<Rightarrow> string raises" where
  "export_research_report format_1f w index =
    (if research_history w = [] \<or> \<bar>index\<bar> > int (length (research_history w))
     then Inr ''No research found.''
     else case list_item (research_history w) index of
            Inl e \<Rightarrow> Inl e
          | Inr research \<Rightarrow> Inr (render_report format_1f research))"

section \<open>The Search Provider\<close>

text \<open>
  The search service, the article library and the page fetch are external: each is a
  function that returns its value or raises. \<open>ddgs_text\<close> is \<open>DDGS().text\<close>, whose
  hits are dictionaries read with \<open>get\<close>.
\<close>

record search_hit =
  hit_title :: "string option"
  hit_link :: "string option"
  hit_body :: "string option"

record search_result =
  title :: string
  link :: string
  snippet :: string

definition search_try ::
    "(string \<Rightarrow> nat \<Rightarrow> search_hit list raises) \<Rightarrow> nat \<Rightarrow> string \<Rightarrow> search_result list raises" where
  "search_try ddgs_text max_results query =
    (case ddgs_text query max_results of
       Inl e \<Rightarrow> Inl e
     | Inr search_results \<Rightarrow>
         Inr (map (\<lambda>result.
                \<lparr>title = dict_get (hit_title result) '''',
                 link = dict_get (hit_link result) '''',
                 snippet = dict_get (hit_body result) ''''\<rparr>) search_results))"

definition search ::
    "(string \<Rightarrow> nat \<Rightarrow> search_hit list raises) \<Rightarrow> nat \<Rightarrow> string \<Rightarrow> search_result list raises" where
  "search ddgs_text max_results query =
     try_except (search_try ddgs_text max_results query) (\<lambda>e. Inr [])"

text \<open>
  The page as the fallback sees it after \<open>requests.get\<close>, the HTML parser and the removal
  of the \<open>script\<close> and \<open>style\<close> elements: its \<open>title\<close> element, if it has one, with the
  string of that element, if it has one, and the text \<open>get_text()\<close> gives.
\<close>

record soup =
  soup_title :: "string option option"
  soup_text :: string

text \<open>\<open>str.splitlines\<close>, \<open>str.strip\<close>, \<open>str.split("  ")\<close> and \<open>' '.join\<close>.\<close>

definition line_boundary :: "char \<Rightarrow> bool" where
  "line_boundary c \<longleftrightarrow>
     (of_char c :: nat) \<in> {0x0A, 0x0B, 0x0C, 0x0D, 0x1C, 0x1D, 0x1E, 0x85}"

fun splitlines_from :: "string \<Rightarrow> string \<Rightarrow> string list" where
  "splitlines_from cur [] = (if cur = [] then [] else [cur])"
| "splitlines_from cur (c # cs) =
    (if c = CHR 0x0D \<and> starts_with [CHR 0x0A] cs then cur # splitlines_from [] (drop 1 cs)
     else if line_boundary c then cur # splitlines_from [] cs
     else splitlines_from (cur @ [c]) cs)"

definition splitlines :: "string \<Rightarrow> string list" where
  "splitlines s = splitlines_from [] s"

definition whitespace :: "char \<Rightarrow> bool" where
  "whitespace c \<longleftrightarrow>
     (of_char c :: nat) \<in> {0x09, 0x0A, 0x0B, 0x0C, 0x0D, 0x1C, 0x1D, 0x1E, 0x1F, 0x20, 0x85, 0xA0}"

definition strip :: "string \<Rightarrow> string" where
  "strip s = rev (dropWhile whitespace (rev (dropWhile whitespace s)))"

fun split_two_spaces_from :: "string \<Rightarrow> string \<Rightarrow> string list" where
  "split_two_spaces_from cur [] = [cur]"
| "split_two_spaces_from cur (c # cs) =
    (if starts_with ''  '' (c # cs) then cur # split_two_spaces_from [] (drop 1 cs)
     else split_two_spaces_from (cur @ [c]) cs)"

definition split_two_spaces :: "string \<Rightarrow> string list" where
  "split_two_spaces s = split_two_spaces_from [] s"

fun join :: "string \<Rightarrow> string list \<Rightarrow> string" where
  "join sep [] = ''''"
| "join sep [x] = x"
| "join sep (x # y # ys) = x @ sep @ join sep (y # ys)"

text \<open>The text of the page as the fallback cleans it up, before it is cut.\<close>

definition page_text :: "soup \<Rightarrow> string" where
  "page_text page =
    (let lines = map strip (splitlines (soup_text page));
         chunks = concat (map (\<lambda>line. map strip (split_two_spaces line)) lines)
     in join '' '' (filter (\<lambda>chunk. chunk \<noteq> '''') chunks))"

text \<open>
  What \<open>extract_article_content\<close> returns: the six fields of the article library, or the
  three of the fallback, whose title is \<open>None\<close> when the title element has no string.
\<close>

record article =
  article_title :: string
  article_authors :: "string list"
  article_publish_date :: "string option"
  article_text :: string
  article_summary :: string
  article_keywords :: "string list"

record page_content =
  page_title :: "string option"
  page_body :: string
  page_summary :: string

datatype extracted = Article_Content article | Page_Content page_content

definition default_content :: page_content where
  "default_content = \<lparr>page_title = Some '''', page_body = '''', page_summary = ''''\<rparr>"

definition fallback_extract_try :: "(string \<Rightarrow> soup raises) \<Rightarrow> string \<Rightarrow> extracted raises" where
  "fallback_extract_try fetch url =
    (case fetch url of
       Inl e \<Rightarrow> Inl e
     | Inr page \<Rightarrow>
         Inr (Page_Content
           \<lparr>page_title = (case soup_title page of Some t \<Rightarrow> t | None \<Rightarrow> Some ''''),
            page_body = take 5000 (page_text page),
            page_summary = take 500 (page_text page)\<rparr>))"

definition fallback_extract :: "(string \<Rightarrow> soup raises) \<Rightarrow> string \<Rightarrow> extracted raises" where
  "fallback_extract fetch url =
     try_except (fallback_extract_try fetch url) (\<lambda>e. Inr (Page_Content default_content))"

text \<open>
  \<open>newspaper\<close> is the article library run on the URL (download, parse, nlp), its
  \<open>publish_date\<close> already turned into a string when there is one;
  \<open>NEWSPAPER_AVAILABLE\<close> tells whether the library could be imported.
\<close>

definition extract_article_content ::
    "bool \<Rightarrow> (string \<Rightarrow> article raises) \<Rightarrow> (string \<Rightarrow> soup raises) \<Rightarrow> string \<Rightarrow> extracted raises" where
  "extract_article_content NEWSPAPER_AVAILABLE newspaper fetch url =
    (if NEWSPAPER_AVAILABLE then
       try_except (map_sum id Article_Content (newspaper url)) (\<lambda>e. fallback_extract fetch url)
     else fallback_extract fetch url)"

section \<open>Example inputs\<close>

definition research_message :: message where
  "research_message =
    \<lparr>name = Some ''research_agent'',
     content = Some ''Found at https://example.com/a and https://example.com/a - short''\<rparr>"

definition agent_message :: "string \<Rightarrow> nat \<Rightarrow> char \<Rightarrow> message" where
  "agent_message agent n c = \<lparr>name = Some agent, content = Some (replicate n c)\<rparr>"

definition example_transcript :: "message list" where
  "example_transcript = [research_message, agent_message ''synthesis_agent'' 120 CHR ''s'']"

text \<open>A driver that adds one message and returns, and one that raises at once.\<close>

definition one_turn_driver :: driver where
  "one_turn_driver prompt transcript = (transcript @ [research_message], None)"

definition failing_driver :: driver where
  "failing_driver prompt transcript = (transcript, Some (Exception ''connection refused''))"

definition noon :: datetime where
  "noon = \<lparr>isoformat = ''2024-01-01T12:00:00'', microseconds = 0\<rparr>"

definition one_past_noon :: datetime where
  "one_past_noon = \<lparr>isoformat = ''2024-01-01T12:01:00'', microseconds = 60000000\<rparr>"

text \<open>The workflow after one completed run on a new workflow.\<close>

definition after_one_run :: workflow where
  "after_one_run = snd (conduct_research id one_turn_driver noon one_past_noon ''AI'' '''' (init []))"

definition overwrite_transcript :: "message list" where
  "overwrite_transcript =
    [agent_message ''synthesis_agent'' 101 CHR ''a'', agent_message ''critique_agent'' 101 CHR ''c'',
     agent_message ''synthesis_agent'' 102 CHR ''b'', agent_message ''critique_agent'' 102 CHR ''d'']"

text \<open>A research message of 17 characters that holds a URL, and a transcript with it.\<close>

definition short_research_message :: message where
  "short_research_message = \<lparr>name = Some ''research_agent'', content = Some ''see http://a.io/x''\<rparr>"

definition harvest_transcript :: "message list" where
  "harvest_transcript = [short_research_message, research_message]"

text \<open>A transcript with a message that has no speaker name.\<close>

definition counting_transcript :: "message list" where
  "counting_transcript =
    [research_message, \<lparr>name = None, content = Some ''hello''\<rparr>, short_research_message,
     agent_message ''synthesis_agent'' 120 CHR ''s'']"

text \<open>
  A search service that raises, an article library that raises, a page fetch that
  raises and one that returns a page.
\<close>

definition failing_search :: "string \<Rightarrow> nat \<Rightarrow> search_hit list raises" where
  "failing_search query max_results = Inl (Exception ''rate limit'')"

definition failing_newspaper :: "string \<Rightarrow> article raises" where
  "failing_newspaper url = Inl (Exception ''download failed'')"

definition failing_fetch :: "string \<Rightarrow> soup raises" where
  "failing_fetch url = Inl (Exception ''connection timed out'')"

definition example_page :: soup where
  "example_page =
    \<lparr>soup_title = Some (Some ''Greetings''),
     soup_text = ''  Hello   world '' @ newline @ newline @ '' bye ''\<rparr>"

definition example_fetch :: "string \<Rightarrow> soup raises" where
  "example_fetch url = Inr example_page"

section \<open>Notions the properties are stated with\<close>

text \<open>
  The messages of an agent that are longer than the long threshold, the messages of
  the research agent, and the finding a research message becomes.
\<close>

definition long_messages_of :: "string \<Rightarrow> message list \<Rightarrow> message list" where
  "long_messages_of agent transcript =
     filter (\<lambda>m. get_name m = agent \<and> 100 < length (get_content m)) transcript"

definition research_messages :: "message list \<Rightarrow> message list" where
  "research_messages transcript = filter (\<lambda>m. get_name m = ''research_agent'') transcript"

definition finding_of :: "message \<Rightarrow> finding" where
  "finding_of m = \<lparr>finding_content = get_content m, finding_agent = ''research_agent''\<rparr>"

text \<open>The key a message is counted under, and the number of messages counted under a key.\<close>

definition speaker :: "message \<Rightarrow> string" where
  "speaker m = dict_get (name m) ''unknown''"

definition messages_of :: "string \<Rightarrow> message list \<Rightarrow> nat" where
  "messages_of k transcript = length (filter (\<lambda>m. speaker m = k) transcript)"

text \<open>
  The record a completed run stores: the transcript is the list the driver left, the
  record refers to it by its address.
\<close>

definition completed_record ::
    "(string list \<Rightarrow> string list) \<Rightarrow> driver \<Rightarrow> datetime \<Rightarrow> datetime \<Rightarrow> string \<Rightarrow> string \<Rightarrow>
     workflow \<Rightarrow> research_record" where
  "completed_record set_order initiate_chat start_time end_time research_topic
     additional_instructions w =
    \<lparr>topic = research_topic,
     timestamp = isoformat start_time,
     duration_seconds = total_seconds end_time start_time,
     messages = group_chat_messages w,
     results = extract_research_results set_order
       (fst (initiate_chat (initial_message research_topic additional_instructions)
               (heap w (group_chat_messages w)))),
     agent_contributions = analyze_agent_contributions
       (fst (initiate_chat (initial_message research_topic additional_instructions)
               (heap w (group_chat_messages w))))\<rparr>"

section \<open>Properties of the Result Extractor\<close>

lemma py_in_drop: "py_in p (drop n s) \<Longrightarrow> py_in p s"
proof (induction s arbitrary: n)
  case Nil
  then show ?case by simp
next
  case (Cons c cs)
  show ?case
  proof (cases n)
    case 0
    with Cons.prems show ?thesis by simp
  next
    case (Suc k)
    with Cons.prems have "py_in p (drop k cs)" by simp
    then have "py_in p cs" by (rule Cons.IH)
    then show ?thesis by simp
  qed
qed

lemma match_url_http: "match_url s = Some n \<Longrightarrow> starts_with ''http'' s"
  by (auto simp: match_url_def url_prefix_def split: option.splits if_splits)

lemma findall_urls_needs_http: "\<not> py_in ''http'' s \<Longrightarrow> findall_urls s = []"
proof (induction s rule: findall_urls.induct)
  case 1
  show ?case by (simp add: findall_urls.simps)
next
  case (2 c cs)
  from "2.prems" have no_prefix: "\<not> starts_with ''http'' (c # cs)" and rest: "\<not> py_in ''http'' cs"
    by simp_all
  from no_prefix have "match_url (c # cs) = None"
    using match_url_http [of "c # cs"] by (cases "match_url (c # cs)") auto
  then have none: "match_url (c # cs) = None" .
  from "2.IH"(1) [OF none rest] none show ?case by (simp add: findall_urls.simps)
qed


lemma findings_extract_message:
  "findings (extract_message res m) =
     findings res @
     (if get_name m = ''research_agent'' \<and> 50 < length (get_content m) then [finding_of m] else [])"
  by (simp add: extract_message_def finding_of_def Let_def)

lemma sources_extract_message:
  "sources (extract_message res m) =
     sources res @ (if get_name m = ''research_agent'' then findall_urls (get_content m) else [])"
  using findall_urls_needs_http [of "get_content m"]
  by (simp add: extract_message_def Let_def)

lemma synthesis_extract_message:
  "synthesis (extract_message res m) =
     (if get_name m = ''synthesis_agent'' \<and> 100 < length (get_content m) then get_content m
      else synthesis res)"
  by (simp add: extract_message_def Let_def)

lemma critique_extract_message:
  "critique (extract_message res m) =
     (if get_name m = ''critique_agent'' \<and> 100 < length (get_content m) then get_content m
      else critique res)"
  by (simp add: extract_message_def Let_def)

lemma foldl_findings:
  "findings (foldl extract_message res ms) =
     findings res @ map finding_of (filter (\<lambda>m. 50 < length (get_content m)) (research_messages ms))"
  by (induction ms arbitrary: res) (simp_all add: findings_extract_message research_messages_def)

lemma foldl_sources:
  "sources (foldl extract_message res ms) =
     sources res @ concat (map (\<lambda>m. findall_urls (get_content m)) (research_messages ms))"
  by (induction ms arbitrary: res) (simp_all add: sources_extract_message research_messages_def)

lemma foldl_synthesis:
  "synthesis (foldl extract_message res ms) =
     (if long_messages_of ''synthesis_agent'' ms = [] then synthesis res
      else get_content (last (long_messages_of ''synthesis_agent'' ms)))"
  by (induction ms arbitrary: res) (simp_all add: synthesis_extract_message long_messages_of_def)

lemma foldl_critique:
  "critique (foldl extract_message res ms) =
     (if long_messages_of ''critique_agent'' ms = [] then critique res
      else get_content (last (long_messages_of ''critique_agent'' ms)))"
  by (induction ms arbitrary: res) (simp_all add: critique_extract_message long_messages_of_def)

lemma member_le_concat: "x \<in> set ps \<Longrightarrow> length (f x) \<le> length (concat (map f ps))"
  by (induction ps) auto

lemma several_longer_than_one:
  assumes "x \<in> set ps" and "2 \<le> length ps" and "\<forall>p \<in> set ps. 0 < length (f p)"
  shows "length (f x) < length (concat (map f ps))"
  using assms
proof (induction ps)
  case Nil
  then show ?case by simp
next
  case (Cons p ps)
  show ?case
  proof (cases "x \<in> set ps")
    case True
    then have "length (f x) \<le> length (concat (map f ps))" by (rule member_le_concat)
    moreover from Cons.prems(3) have "0 < length (f p)" by simp
    ultimately have "length (f x) < length (f p) + length (concat (map f ps))" by linarith
    then show ?thesis by simp
  next
    case False
    with Cons.prems(1) have "x = p" by simp
    from Cons.prems(2) obtain q where "q \<in> set ps" by (cases ps) auto
    then have "length (f q) \<le> length (concat (map f ps))" by (rule member_le_concat)
    moreover from \<open>q \<in> set ps\<close> Cons.prems(3) have "0 < length (f q)" by simp
    ultimately have "length (f p) < length (f p) + length (concat (map f ps))" by linarith
    then show ?thesis using \<open>x = p\<close> by simp
  qed
qed

lemma list_of_set_perm:
  assumes "\<forall>ys. mset (set_order ys) = mset ys"
  shows "distinct (list_of_set set_order xs)" and "set (list_of_set set_order xs) = set xs"
proof -
  from assms have eq: "mset (set_order (remdups xs)) = mset (remdups xs)" by blast
  from eq have "distinct (set_order (remdups xs)) \<longleftrightarrow> distinct (remdups xs)"
    by (rule mset_eq_imp_distinct_iff)
  then show "distinct (list_of_set set_order xs)" by (simp add: list_of_set_def)
  from eq have "set (set_order (remdups xs)) = set (remdups xs)" by (rule mset_eq_setD)
  then show "set (list_of_set set_order xs) = set xs" by (simp add: list_of_set_def)
qed

text \<open>
  Claim C4. When a transcript has two or more synthesis messages longer than 100
  characters, the extracted synthesis is the content of the last of them, and it is
  not the concatenation of any two or more of those messages that include the last
  one; the same holds for the critique messages and the extracted critique.
\<close>

theorem last_writer_wins:
  "(2 \<le> length (long_messages_of ''synthesis_agent'' transcript) \<longrightarrow>
      synthesis (extract_research_results set_order transcript) =
        get_content (last (long_messages_of ''synthesis_agent'' transcript)) \<and>
      (\<forall>ps. set ps \<subseteq> set (long_messages_of ''synthesis_agent'' transcript) \<and>
            last (long_messages_of ''synthesis_agent'' transcript) \<in> set ps \<and> 2 \<le> length ps \<longrightarrow>
            synthesis (extract_research_results set_order transcript) \<noteq>
              concat (map get_content ps))) \<and>
   (2 \<le> length (long_messages_of ''critique_agent'' transcript) \<longrightarrow>
      critique (extract_research_results set_order transcript) =
        get_content (last (long_messages_of ''critique_agent'' transcript)) \<and>
      (\<forall>ps. set ps \<subseteq> set (long_messages_of ''critique_agent'' transcript) \<and>
            last (long_messages_of ''critique_agent'' transcript) \<in> set ps \<and> 2 \<le> length ps \<longrightarrow>
            critique (extract_research_results set_order transcript) \<noteq>
              concat (map get_content ps)))"
proof -
  define res where "res = extract_research_results set_order transcript"
  define syn where "syn = long_messages_of ''synthesis_agent'' transcript"
  define cri where "cri = long_messages_of ''critique_agent'' transcript"
  have long: "\<forall>p \<in> set (long_messages_of agent transcript). 0 < length (get_content p)" for agent
    by (auto simp: long_messages_of_def)
  have never: "get_content (last qs) \<noteq> concat (map get_content ps)"
    if "set ps \<subseteq> set qs \<and> last qs \<in> set ps \<and> 2 \<le> length ps"
       "\<forall>p \<in> set qs. 0 < length (get_content p)" for ps qs :: "message list"
  proof -
    from that have "\<forall>p \<in> set ps. 0 < length (get_content p)" by blast
    with that(1) have "length (get_content (last qs)) < length (concat (map get_content ps))"
      by (intro several_longer_than_one) simp_all
    then show ?thesis by auto
  qed
  have syn_eq: "synthesis res = get_content (last syn)" if "2 \<le> length syn"
    using that unfolding res_def syn_def
    by (auto simp: extract_research_results_def Let_def foldl_synthesis)
  have cri_eq: "critique res = get_content (last cri)" if "2 \<le> length cri"
    using that unfolding res_def cri_def
    by (auto simp: extract_research_results_def Let_def foldl_critique)
  have A: "2 \<le> length syn \<longrightarrow> synthesis res = get_content (last syn) \<and>
          (\<forall>ps. set ps \<subseteq> set syn \<and> last syn \<in> set ps \<and> 2 \<le> length ps \<longrightarrow>
                synthesis res \<noteq> concat (map get_content ps))"
    using syn_eq never [of _ syn] long [of "''synthesis_agent''"] unfolding syn_def by simp
  have B: "2 \<le> length cri \<longrightarrow> critique res = get_content (last cri) \<and>
          (\<forall>ps. set ps \<subseteq> set cri \<and> last cri \<in> set ps \<and> 2 \<le> length ps \<longrightarrow>
                critique res \<noteq> concat (map get_content ps))"
    using cri_eq never [of _ cri] long [of "''critique_agent''"] unfolding cri_def by simp
  show ?thesis using A B unfolding res_def syn_def cri_def by (rule conjI)
qed

lemma long_synthesis_overwrite:
  "long_messages_of ''synthesis_agent'' overwrite_transcript =
     [agent_message ''synthesis_agent'' 101 CHR ''a'', agent_message ''synthesis_agent'' 102 CHR ''b'']"
  by (simp add: long_messages_of_def overwrite_transcript_def agent_message_def get_name_def
      get_content_def dict_get_def)

lemma long_critique_overwrite:
  "long_messages_of ''critique_agent'' overwrite_transcript =
     [agent_message ''critique_agent'' 101 CHR ''c'', agent_message ''critique_agent'' 102 CHR ''d'']"
  by (simp add: long_messages_of_def overwrite_transcript_def agent_message_def get_name_def
      get_content_def dict_get_def)

theorem last_writer_wins_witness:
  "2 \<le> length (long_messages_of ''synthesis_agent'' overwrite_transcript) \<and>
   2 \<le> length (long_messages_of ''critique_agent'' overwrite_transcript) \<and>
   synthesis (extract_research_results id overwrite_transcript) = replicate 102 CHR ''b'' \<and>
   synthesis (extract_research_results id overwrite_transcript) \<noteq>
     replicate 101 CHR ''a'' @ replicate 102 CHR ''b'' \<and>
   critique (extract_research_results id overwrite_transcript) = replicate 102 CHR ''d'' \<and>
   critique (extract_research_results id overwrite_transcript) \<noteq>
     replicate 101 CHR ''c'' @ replicate 102 CHR ''d''"
proof -
  note w = last_writer_wins [of overwrite_transcript id]
  have s2: "2 \<le> length (long_messages_of ''synthesis_agent'' overwrite_transcript)"
    by (simp add: long_synthesis_overwrite)
  have c2: "2 \<le> length (long_messages_of ''critique_agent'' overwrite_transcript)"
    by (simp add: long_critique_overwrite)
  from w s2 have syn: "synthesis (extract_research_results id overwrite_transcript) =
      get_content (last (long_messages_of ''synthesis_agent'' overwrite_transcript))"
    and syn_ne: "\<And>ps. set ps \<subseteq> set (long_messages_of ''synthesis_agent'' overwrite_transcript) \<and>
            last (long_messages_of ''synthesis_agent'' overwrite_transcript) \<in> set ps \<and> 2 \<le> length ps \<Longrightarrow>
            synthesis (extract_research_results id overwrite_transcript) \<noteq>
              concat (map get_content ps)"
    by blast+
  from w c2 have cri: "critique (extract_research_results id overwrite_transcript) =
      get_content (last (long_messages_of ''critique_agent'' overwrite_transcript))"
    and cri_ne: "\<And>ps. set ps \<subseteq> set (long_messages_of ''critique_agent'' overwrite_transcript) \<and>
            last (long_messages_of ''critique_agent'' overwrite_transcript) \<in> set ps \<and> 2 \<le> length ps \<Longrightarrow>
            critique (extract_research_results id overwrite_transcript) \<noteq>
              concat (map get_content ps)"
    by blast+
  have "synthesis (extract_research_results id overwrite_transcript) = replicate 102 CHR ''b''"
    using syn by (simp add: long_synthesis_overwrite agent_message_def get_content_def dict_get_def)
  moreover have "synthesis (extract_research_results id overwrite_transcript) \<noteq>
     replicate 101 CHR ''a'' @ replicate 102 CHR ''b''"
    using syn_ne [of "long_messages_of ''synthesis_agent'' overwrite_transcript"]
    by (simp add: long_synthesis_overwrite agent_message_def get_content_def dict_get_def)
  moreover have "critique (extract_research_results id overwrite_transcript) = replicate 102 CHR ''d''"
    using cri by (simp add: long_critique_overwrite agent_message_def get_content_def dict_get_def)
  moreover have "critique (extract_research_results id overwrite_transcript) \<noteq>
     replicate 101 CHR ''c'' @ replicate 102 CHR ''d''"
    using cri_ne [of "long_messages_of ''critique_agent'' overwrite_transcript"]
    by (simp add: long_critique_overwrite agent_message_def get_content_def dict_get_def)
  ultimately show ?thesis using s2 c2 by blast
qed

text \<open>
  Claim C6. Whatever the iteration order of the set, the sources the extractor returns
  hold no URL twice.
\<close>

theorem sources_distinct:
  "(\<forall>ys. mset (set_order ys) = mset ys) \<Longrightarrow>
     distinct (sources (extract_research_results set_order transcript))"
  by (simp add: extract_research_results_def Let_def list_of_set_perm(1))

theorem sources_distinct_witness:
  "(\<forall>ys :: string list. mset (id ys) = mset ys) \<and>
   distinct (sources (extract_research_results id example_transcript))"
  using sources_distinct [of id example_transcript] by simp

lemma findall_research_message:
  "findall_urls ''Found at https://example.com/a and https://example.com/a - short'' =
     [''https://example.com/a'', ''https://example.com/a'']"
  by code_simp

lemma findall_short_research_message: "findall_urls ''see http://a.io/x'' = [''http://a.io/x'']"
  by code_simp

lemma get_content_research_message:
  "get_content research_message =
     ''Found at https://example.com/a and https://example.com/a - short''"
  by (simp add: research_message_def get_content_def dict_get_def)

lemma get_name_research_message: "get_name research_message = ''research_agent''"
  by (simp add: research_message_def get_name_def dict_get_def)

lemma get_name_agent_message: "get_name (agent_message agent n c) = agent"
  by (simp add: agent_message_def get_name_def dict_get_def)

lemma get_content_agent_message: "get_content (agent_message agent n c) = replicate n c"
  by (simp add: agent_message_def get_content_def dict_get_def)

lemma singleton_perm: "mset xs = {#u#} \<Longrightarrow> xs = [u]"
  by (cases xs) auto

text \<open>
  Claim C5. The findings are the research-agent messages longer than 50 characters, in
  transcript order, each as a finding of the research agent; so there are at most as
  many findings as research-agent messages and every finding is longer than 50
  characters. The sources hold the URLs of every research-agent message, whatever its
  length.
\<close>

theorem findings_are_long_research_messages:
  "findings (extract_research_results set_order transcript) =
     map finding_of (filter (\<lambda>m. 50 < length (get_content m)) (research_messages transcript)) \<and>
   length (findings (extract_research_results set_order transcript)) \<le>
     length (research_messages transcript) \<and>
   (\<forall>f \<in> set (findings (extract_research_results set_order transcript)).
      50 < length (finding_content f)) \<and>
   ((\<forall>ys. mset (set_order ys) = mset ys) \<longrightarrow>
      set (sources (extract_research_results set_order transcript)) =
        (\<Union>m \<in> set (research_messages transcript). set (findall_urls (get_content m))))"
proof -
  have f: "findings (extract_research_results set_order transcript) =
     map finding_of (filter (\<lambda>m. 50 < length (get_content m)) (research_messages transcript))"
    by (simp add: extract_research_results_def Let_def foldl_findings empty_results_def)
  have n: "length (findings (extract_research_results set_order transcript)) \<le>
     length (research_messages transcript)"
    unfolding f by simp
  have l: "\<forall>f \<in> set (findings (extract_research_results set_order transcript)).
      50 < length (finding_content f)"
    unfolding f by (auto simp: finding_of_def)
  have s: "set (sources (extract_research_results set_order transcript)) =
        (\<Union>m \<in> set (research_messages transcript). set (findall_urls (get_content m)))"
    if "\<forall>ys. mset (set_order ys) = mset ys"
    using list_of_set_perm(2) [OF that]
    by (simp add: extract_research_results_def Let_def foldl_sources empty_results_def)
  from f n l s show ?thesis by blast
qed

lemma research_messages_harvest:
  "research_messages harvest_transcript = [short_research_message, research_message]"
  by (simp add: research_messages_def harvest_transcript_def short_research_message_def
      research_message_def get_name_def dict_get_def)

lemma get_content_short: "get_content short_research_message = ''see http://a.io/x''"
  by (simp add: short_research_message_def get_content_def dict_get_def)

theorem findings_are_long_research_messages_witness:
  "findings (extract_research_results id harvest_transcript) = [finding_of research_message] \<and>
   50 < length (finding_content (hd (findings (extract_research_results id harvest_transcript)))) \<and>
   length (findings (extract_research_results id harvest_transcript)) \<le> 2 \<and>
   length (get_content short_research_message) \<le> 50 \<and>
   set (sources (extract_research_results id harvest_transcript)) =
     {''http://a.io/x'', ''https://example.com/a''}"
proof -
  have perm: "\<forall>ys :: string list. mset (id ys) = mset ys" by simp
  note w = findings_are_long_research_messages [of id harvest_transcript]
  from w have "findings (extract_research_results id harvest_transcript) =
     map finding_of (filter (\<lambda>m. 50 < length (get_content m)) (research_messages harvest_transcript))"
    by blast
  then have f: "findings (extract_research_results id harvest_transcript) = [finding_of research_message]"
    by (simp add: research_messages_harvest get_content_short get_content_research_message)
  from w have l: "\<forall>f \<in> set (findings (extract_research_results id harvest_transcript)).
      50 < length (finding_content f)"
    by blast
  from w perm have "set (sources (extract_research_results id harvest_transcript)) =
        (\<Union>m \<in> set (research_messages harvest_transcript). set (findall_urls (get_content m)))"
    by blast
  then have s: "set (sources (extract_research_results id harvest_transcript)) =
     {''http://a.io/x'', ''https://example.com/a''}"
    by (auto simp: research_messages_harvest get_content_short get_content_research_message
        findall_research_message findall_short_research_message)
  from f l have "50 < length (finding_content (hd (findings (extract_research_results id harvest_transcript))))"
    by simp
  with f s show ?thesis by (simp add: get_content_short)
qed

text \<open>
  Claim C2, amended. On the transcript made of the research-agent message
  \<open>Found at https://example.com/a and https://example.com/a - short\<close> and a
  synthesis-agent message of 120 characters, the sources are the one URL
  \<open>https://example.com/a\<close> and the synthesis is the 120-character text; the
  research message has 64 characters, more than 50, so the findings are that one
  message and not the empty list.
\<close>

theorem example_transcript_results:
  "length s = 120 \<Longrightarrow> (\<forall>ys. mset (set_order ys) = mset ys) \<Longrightarrow>
   sources (extract_research_results set_order
      [research_message, \<lparr>name = Some ''synthesis_agent'', content = Some s\<rparr>]) =
     [''https://example.com/a''] \<and>
   findings (extract_research_results set_order
      [research_message, \<lparr>name = Some ''synthesis_agent'', content = Some s\<rparr>]) =
     [\<lparr>finding_content = ''Found at https://example.com/a and https://example.com/a - short'',
       finding_agent = ''research_agent''\<rparr>] \<and>
   synthesis (extract_research_results set_order
      [research_message, \<lparr>name = Some ''synthesis_agent'', content = Some s\<rparr>]) = s"
proof -
  assume len: "length s = 120" and perm: "\<forall>ys. mset (set_order ys) = mset ys"
  define syn where "syn = \<lparr>name = Some ''synthesis_agent'', content = Some s\<rparr>"
  have syn_name: "get_name syn = ''synthesis_agent''" and syn_content: "get_content syn = s"
    by (simp_all add: syn_def get_name_def get_content_def dict_get_def)
  have rs: "research_messages [research_message, syn] = [research_message]"
    by (simp add: research_messages_def get_name_research_message syn_name)
  have ls: "long_messages_of ''synthesis_agent'' [research_message, syn] = [syn]"
    using len by (simp add: long_messages_of_def get_name_research_message syn_name syn_content)
  from perm have "mset (set_order [''https://example.com/a'']) = mset [''https://example.com/a'']"
    by blast
  then have one: "set_order [''https://example.com/a''] = [''https://example.com/a'']"
    by (intro singleton_perm) simp
  have "sources (extract_research_results set_order [research_message, syn]) =
      [''https://example.com/a'']"
    by (simp add: extract_research_results_def Let_def foldl_sources empty_results_def rs
        get_content_research_message findall_research_message list_of_set_def one
        del: foldl_Cons)
  moreover have "findings (extract_research_results set_order [research_message, syn]) =
     [\<lparr>finding_content = ''Found at https://example.com/a and https://example.com/a - short'',
       finding_agent = ''research_agent''\<rparr>]"
    by (simp add: extract_research_results_def Let_def foldl_findings empty_results_def rs
        get_content_research_message finding_of_def del: foldl_Cons)
  moreover have "synthesis (extract_research_results set_order [research_message, syn]) = s"
    by (simp add: extract_research_results_def Let_def foldl_synthesis ls syn_content
        del: foldl_Cons)
  ultimately show ?thesis unfolding syn_def by blast
qed

theorem example_transcript_results_witness:
  "length (replicate 120 CHR ''s'') = 120 \<and> (\<forall>ys :: string list. mset (id ys) = mset ys) \<and>
   sources (extract_research_results id example_transcript) = [''https://example.com/a''] \<and>
   findings (extract_research_results id example_transcript) =
     [\<lparr>finding_content = ''Found at https://example.com/a and https://example.com/a - short'',
       finding_agent = ''research_agent''\<rparr>] \<and>
   synthesis (extract_research_results id example_transcript) = replicate 120 CHR ''s''"
  using example_transcript_results [of "replicate 120 CHR ''s''" id]
  by (simp add: example_transcript_def agent_message_def)

theorem example_transcript_findings_counterexample:
  "\<not> (set (sources (extract_research_results id example_transcript)) = {''https://example.com/a''} \<and>
      findings (extract_research_results id example_transcript) = [] \<and>
      synthesis (extract_research_results id example_transcript) = replicate 120 CHR ''s'')"
proof -
  have "research_messages example_transcript = [research_message]"
    by (simp add: research_messages_def example_transcript_def
        get_name_research_message get_name_agent_message)
  then have "findings (extract_research_results id example_transcript) = [finding_of research_message]"
    by (simp add: extract_research_results_def Let_def foldl_findings empty_results_def
        get_content_research_message del: foldl_Cons)
  then show ?thesis by simp
qed

section \<open>Properties of the Contribution Analyzer\<close>

lemma map_of_dict_store: "map_of (dict_store k v d) = (map_of d)(k \<mapsto> v)"
  by (induction d) (auto simp: fun_eq_iff)

lemma keys_dict_store:
  "map fst (dict_store k v d) = (if k \<in> fst ` set d then map fst d else map fst d @ [k])"
  by (induction d) force+

lemma distinct_dict_store:
  "distinct (map fst d) \<Longrightarrow> distinct (map fst (dict_store k v d))"
  by (simp add: keys_dict_store)

lemma sum_dict_store:
  fixes d :: "('k \<times> nat) list"
  shows "distinct (map fst d) \<Longrightarrow>
     sum_list (map snd (dict_store k v d)) + dict_get (map_of d k) 0 = sum_list (map snd d) + v"
proof (induction d)
  case Nil
  show ?case by (simp add: dict_get_def)
next
  case (Cons p d)
  obtain k' v' where p: "p = (k', v')" by (cases p)
  show ?case
  proof (cases "k' = k")
    case True
    with Cons.prems p have "map_of d k = None"
      by (auto simp: map_of_eq_None_iff)
    with True p show ?thesis by (simp add: dict_get_def)
  next
    case False
    with Cons p show ?thesis by simp
  qed
qed

lemma sum_count_message:
  "distinct (map fst d) \<Longrightarrow>
     sum_list (map snd (count_message d m)) = Suc (sum_list (map snd d))"
  using sum_dict_store [of d "speaker m" "dict_get (map_of d (speaker m)) 0 + 1"]
  by (simp add: count_message_def Let_def speaker_def)

lemma distinct_count_message:
  "distinct (map fst d) \<Longrightarrow> distinct (map fst (count_message d m))"
  by (simp add: count_message_def Let_def distinct_dict_store)

lemma map_of_count_message:
  "map_of (count_message d m) k =
     (if speaker m = k then Some (Suc (dict_get (map_of d k) 0)) else map_of d k)"
  by (simp add: count_message_def Let_def map_of_dict_store speaker_def)

lemma foldl_count_distinct:
  "distinct (map fst d) \<Longrightarrow> distinct (map fst (foldl count_message d ms))"
  by (induction ms arbitrary: d) (simp_all add: distinct_count_message)

lemma foldl_count_sum:
  "distinct (map fst d) \<Longrightarrow>
     sum_list (map snd (foldl count_message d ms)) = sum_list (map snd d) + length ms"
  by (induction ms arbitrary: d) (simp_all add: distinct_count_message sum_count_message)

lemma foldl_count_map_of:
  "map_of (foldl count_message d ms) k =
     (if messages_of k ms = 0 then map_of d k
      else Some (dict_get (map_of d k) 0 + messages_of k ms))"
  by (induction ms arbitrary: d)
     (auto simp: map_of_count_message messages_of_def dict_get_def)

text \<open>
  Claim C7. The Contribution Analyzer is a function of the transcript alone and
  returns for every transcript a dictionary with one entry per speaker name, a message
  without a name counting under \<open>unknown\<close>: the entry of a name is the number of its
  messages, a name without messages has no entry, and the counts add up to the length
  of the transcript. On the empty transcript the dictionary is empty.
\<close>

theorem contributions_count_every_message:
  "analyze_agent_contributions [] = [] \<and>
   distinct (map fst (analyze_agent_contributions transcript)) \<and>
   sum_list (map snd (analyze_agent_contributions transcript)) = length transcript \<and>
   (\<forall>k. map_of (analyze_agent_contributions transcript) k =
          (if messages_of k transcript = 0 then None else Some (messages_of k transcript)))"
  by (simp add: analyze_agent_contributions_def foldl_count_distinct foldl_count_sum
      foldl_count_map_of dict_get_def)

lemma speaker_simps:
  "speaker research_message = ''research_agent''"
  "speaker short_research_message = ''research_agent''"
  "speaker (agent_message agent n c) = agent"
  "speaker \<lparr>name = None, content = x\<rparr> = ''unknown''"
  by (simp_all add: speaker_def dict_get_def research_message_def short_research_message_def
      agent_message_def)

theorem contributions_count_every_message_witness:
  "sum_list (map snd (analyze_agent_contributions counting_transcript)) = 4 \<and>
   map_of (analyze_agent_contributions counting_transcript) ''research_agent'' = Some 2 \<and>
   map_of (analyze_agent_contributions counting_transcript) ''unknown'' = Some 1 \<and>
   map_of (analyze_agent_contributions counting_transcript) ''user_proxy'' = None"
  using contributions_count_every_message [of counting_transcript]
  by (simp add: counting_transcript_def messages_of_def speaker_simps)

section \<open>Properties of the workflow\<close>

lemma conduct_research_completes:
  assumes "snd (initiate_chat (initial_message research_topic additional_instructions)
                  (heap w (group_chat_messages w))) = None"
  shows "conduct_research set_order initiate_chat start_time end_time research_topic
           additional_instructions w =
         (Inr (Research_Record (completed_record set_order initiate_chat start_time end_time
                 research_topic additional_instructions w)),
          w\<lparr>heap := (heap w)(group_chat_messages w :=
               fst (initiate_chat (initial_message research_topic additional_instructions)
                      (heap w (group_chat_messages w)))),
            research_history := research_history w @
              [completed_record set_order initiate_chat start_time end_time research_topic
                 additional_instructions w]\<rparr>)"
  using assms
  by (simp add: conduct_research_def conduct_research_try_def completed_record_def Let_def
      try_except_def)

lemma conduct_research_fails:
  assumes "snd (initiate_chat (initial_message research_topic additional_instructions)
                  (heap w (group_chat_messages w))) = Some e"
  shows "conduct_research set_order initiate_chat start_time end_time research_topic
           additional_instructions w =
         (Inr (Degraded_Record (str_of_exception e) research_topic (isoformat start_time)),
          w\<lparr>heap := (heap w)(group_chat_messages w :=
               fst (initiate_chat (initial_message research_topic additional_instructions)
                      (heap w (group_chat_messages w))))\<rparr>)"
  using assms
  by (simp add: conduct_research_def conduct_research_try_def Let_def try_except_def)

lemma failing_driver_raises:
  "snd (failing_driver prompt transcript) = Some (Exception ''connection refused'')"
  "fst (failing_driver prompt transcript) = transcript"
  by (simp_all add: failing_driver_def)

lemma one_turn_driver_returns:
  "snd (one_turn_driver prompt transcript) = None"
  "fst (one_turn_driver prompt transcript) = transcript @ [research_message]"
  by (simp_all add: one_turn_driver_def)

lemma init_fields:
  "research_history (init cfg) = []"
  "group_chat_messages (init cfg) = 0"
  "heap (init cfg) a = []"
  by (simp_all add: init_def)

text \<open>
  Claim C3, amended. A call of \<open>conduct_research\<close> whose run completes appends exactly
  one record of the success shape to the end of the Session Store and returns it; a
  call whose run fails returns the degraded record and appends nothing. In both cases
  the entries that were in the store stay where they were, in the same order and with
  the same fields, none deleted.
\<close>

theorem conduct_research_store:
  "(snd (initiate_chat (initial_message research_topic additional_instructions)
           (heap w (group_chat_messages w))) = None \<longrightarrow>
      fst (conduct_research set_order initiate_chat start_time end_time research_topic
             additional_instructions w) =
        Inr (Research_Record (completed_record set_order initiate_chat start_time end_time
               research_topic additional_instructions w)) \<and>
      research_history (snd (conduct_research set_order initiate_chat start_time end_time
             research_topic additional_instructions w)) =
        research_history w @
          [completed_record set_order initiate_chat start_time end_time research_topic
             additional_instructions w]) \<and>
   (snd (initiate_chat (initial_message research_topic additional_instructions)
           (heap w (group_chat_messages w))) \<noteq> None \<longrightarrow>
      (\<exists>e. fst (conduct_research set_order initiate_chat start_time end_time research_topic
                  additional_instructions w) =
              Inr (Degraded_Record e research_topic (isoformat start_time))) \<and>
      research_history (snd (conduct_research set_order initiate_chat start_time end_time
             research_topic additional_instructions w)) = research_history w) \<and>
   take (length (research_history w))
     (research_history (snd (conduct_research set_order initiate_chat start_time end_time
        research_topic additional_instructions w))) = research_history w"
proof (cases "snd (initiate_chat (initial_message research_topic additional_instructions)
                (heap w (group_chat_messages w)))")
  case None
  show ?thesis
    using None conduct_research_completes [where initiate_chat = initiate_chat and w = w and
        research_topic = research_topic and additional_instructions = additional_instructions and
        set_order = set_order and start_time = start_time and end_time = end_time]
    by simp
next
  case (Some e)
  show ?thesis
    using Some conduct_research_fails [where initiate_chat = initiate_chat and w = w and
        research_topic = research_topic and additional_instructions = additional_instructions and
        set_order = set_order and start_time = start_time and end_time = end_time and e = e]
    by simp
qed

theorem conduct_research_store_witness:
  "fst (conduct_research id one_turn_driver noon one_past_noon ''AI'' '''' (init [])) =
     Inr (Research_Record
       (completed_record id one_turn_driver noon one_past_noon ''AI'' '''' (init []))) \<and>
   research_history (snd (conduct_research id one_turn_driver noon one_past_noon ''AI'' ''''
     (init []))) =
     [completed_record id one_turn_driver noon one_past_noon ''AI'' '''' (init [])] \<and>
   research_history (snd (conduct_research id failing_driver noon one_past_noon ''AI'' ''''
     after_one_run)) = research_history after_one_run \<and>
   length (research_history after_one_run) = 1"
proof -
  have a: "research_history after_one_run =
      [completed_record id one_turn_driver noon one_past_noon ''AI'' '''' (init [])]"
    unfolding after_one_run_def
    using conduct_research_store [of one_turn_driver "''AI''" "''''" "init []" id noon one_past_noon]
    by (simp add: one_turn_driver_returns init_fields)
  show ?thesis
    using conduct_research_store [of one_turn_driver "''AI''" "''''" "init []" id noon one_past_noon]
      conduct_research_store [of failing_driver "''AI''" "''''" after_one_run id noon one_past_noon]
      a
    by (simp add: one_turn_driver_returns failing_driver_raises init_fields)
qed

theorem failed_run_not_stored_counterexample:
  "length (research_history
     (snd (conduct_research id failing_driver noon one_past_noon ''AI'' '''' (init [])))) \<noteq>
   length (research_history (init [])) + 1"
  using conduct_research_fails [where initiate_chat = failing_driver and w = "init []" and
      research_topic = "''AI''" and additional_instructions = "''''" and set_order = id and
      start_time = noon and end_time = one_past_noon and e = "Exception ''connection refused''"]
  by (simp add: failing_driver_raises init_fields)

text \<open>
  Claim C8. When the Conversation Driver raises, \<open>conduct_research\<close> does not raise: it
  returns the dictionary with exactly the keys \<open>error\<close>, \<open>topic\<close> and \<open>timestamp\<close>,
  holding the message of the exception, the topic and the start time. The driver has
  run once: the workflow is left as that one run left the transcript, and the Session
  Store is as it was.
\<close>

theorem conduct_research_degraded:
  "snd (initiate_chat (initial_message research_topic additional_instructions)
          (heap w (group_chat_messages w))) = Some e \<Longrightarrow>
   fst (conduct_research set_order initiate_chat start_time end_time research_topic
          additional_instructions w) =
     Inr (Degraded_Record (str_of_exception e) research_topic (isoformat start_time)) \<and>
   keys (Degraded_Record (str_of_exception e) research_topic (isoformat start_time)) =
     [''error'', ''topic'', ''timestamp''] \<and>
   snd (conduct_research set_order initiate_chat start_time end_time research_topic
          additional_instructions w) =
     w\<lparr>heap := (heap w)(group_chat_messages w :=
          fst (initiate_chat (initial_message research_topic additional_instructions)
                 (heap w (group_chat_messages w))))\<rparr> \<and>
   research_history (snd (conduct_research set_order initiate_chat start_time end_time
          research_topic additional_instructions w)) = research_history w"
  by (simp add: conduct_research_fails)

theorem conduct_research_degraded_witness:
  "snd (failing_driver (initial_message ''AI'' '''') (heap (init []) (group_chat_messages (init []))))
     = Some (Exception ''connection refused'') \<and>
   fst (conduct_research id failing_driver noon one_past_noon ''AI'' '''' (init [])) =
     Inr (Degraded_Record ''connection refused'' ''AI'' ''2024-01-01T12:00:00'') \<and>
   research_history (snd (conduct_research id failing_driver noon one_past_noon ''AI'' ''''
     (init []))) = []"
  using conduct_research_degraded [of failing_driver "''AI''" "''''" "init []"
      "Exception ''connection refused''" id noon one_past_noon]
  by (simp add: failing_driver_raises init_fields noon_def)

lemma reset_frame:
  "research_history (reset w) = research_history w"
  "llm_config (reset w) = llm_config w"
  "group_chat_messages (reset w) = group_chat_messages w"
  "heap (reset w) a = (if a = group_chat_messages w then [] else heap w a)"
  by (simp_all add: reset_def)

lemma after_one_run_fields:
  "research_history after_one_run =
     [completed_record id one_turn_driver noon one_past_noon ''AI'' '''' (init [])]"
  "heap after_one_run 0 = [research_message]"
  "group_chat_messages after_one_run = 0"
  unfolding after_one_run_def
  using conduct_research_completes [where initiate_chat = one_turn_driver and w = "init []" and
      research_topic = "''AI''" and additional_instructions = "''''" and set_order = id and
      start_time = noon and end_time = one_past_noon]
  by (simp_all add: one_turn_driver_returns init_fields)

lemma messages_completed_record:
  "messages (completed_record set_order initiate_chat start_time end_time research_topic
     additional_instructions w) = group_chat_messages w"
  by (simp add: completed_record_def)

text \<open>
  Every record \<open>conduct_research\<close> stores refers to the transcript list of the workflow,
  and \<open>reset\<close> empties what such a record shows.
\<close>

lemma stored_records_share_transcript:
  assumes "\<forall>r \<in> set (research_history w). messages r = group_chat_messages w"
  shows "\<forall>r \<in> set (research_history (snd (conduct_research set_order initiate_chat start_time
            end_time research_topic additional_instructions w))).
           messages r = group_chat_messages (snd (conduct_research set_order initiate_chat
             start_time end_time research_topic additional_instructions w))"
proof (cases "snd (initiate_chat (initial_message research_topic additional_instructions)
                (heap w (group_chat_messages w)))")
  case None
  show ?thesis
    using assms None conduct_research_completes [where initiate_chat = initiate_chat and w = w and
        research_topic = research_topic and additional_instructions = additional_instructions and
        set_order = set_order and start_time = start_time and end_time = end_time]
    by (simp add: messages_completed_record)
next
  case (Some e)
  show ?thesis
    using assms Some conduct_research_fails [where initiate_chat = initiate_chat and w = w and
        research_topic = research_topic and additional_instructions = additional_instructions and
        set_order = set_order and start_time = start_time and end_time = end_time and e = e]
    by simp
qed

lemma reset_empties_shared_transcript:
  "messages r = group_chat_messages w \<Longrightarrow> record_messages (reset w) r = []"
  by (simp add: record_messages_def reset_def)

text \<open>
  Claim C10, evaluated on the workflow after one completed run. \<open>reset\<close> leaves the list
  \<open>research_history\<close> with the same record, but the transcript that record refers to is
  the list \<open>reset\<close> clears: the record showed the one message of the run before the
  reset and shows no message after it.
\<close>

theorem reset_clears_stored_transcript:
  "research_history (reset after_one_run) = research_history after_one_run \<and>
   map (record_messages after_one_run) (research_history after_one_run) = [[research_message]] \<and>
   map (record_messages (reset after_one_run)) (research_history (reset after_one_run)) = [[]]"
  by (simp add: reset_frame after_one_run_fields record_messages_def messages_completed_record
      init_fields)

section \<open>Properties of the Report Renderer\<close>

lemma export_research_report_cases:
  "export_research_report format_1f w index =
    (if research_history w = [] \<or> index < - int (length (research_history w)) \<or>
        int (length (research_history w)) < index
     then Inr ''No research found.''
     else if index = int (length (research_history w))
     then Inl (IndexError ''list index out of range'')
     else Inr (render_report format_1f
            (research_history w ! nat (if index < 0 then index + int (length (research_history w))
                                       else index))))"
  by (auto simp: export_research_report_def list_item_def Let_def)

text \<open>
  Claim C1, evaluated on the workflow after one completed run. With one record in the
  store, index 1 is out of range; \<open>export_research_report\<close> raises \<open>IndexError\<close> there
  and does not return \<open>No research found.\<close>, which it returns for index 2 and on the
  empty store; index \<open>-1\<close> gives the report of the record.
\<close>

theorem export_at_store_length_raises:
  "export_research_report format_1f after_one_run 1 = Inl (IndexError ''list index out of range'') \<and>
   export_research_report format_1f after_one_run 2 = Inr ''No research found.'' \<and>
   export_research_report format_1f (init []) 1 = Inr ''No research found.'' \<and>
   export_research_report format_1f after_one_run (- 1) =
     Inr (render_report format_1f
            (completed_record id one_turn_driver noon one_past_noon ''AI'' '''' (init [])))"
  by (simp add: export_research_report_cases after_one_run_fields init_fields)

section \<open>Properties of the Search Provider\<close>

lemma page_text_example: "page_text example_page = ''Hello world bye''"
  by code_simp

lemma try_except_returns:
  "(\<And>e. \<exists>v. handler e = Inr v) \<Longrightarrow> \<exists>v. try_except body handler = Inr v"
  by (cases body) (auto simp: try_except_def)

lemma fallback_extract_returns: "\<exists>c. fallback_extract fetch url = Inr c"
  by (simp add: fallback_extract_def try_except_returns)

text \<open>
  Claim C9. \<open>search\<close> and \<open>extract_article_content\<close> return for every query and URL and
  never raise. When the search service raises, \<open>search\<close> returns the empty list. When
  the article library is unavailable or raises, the result is that of the fallback:
  for a page that could be fetched, the cleaned text of the page cut to its first 5000
  characters as text and to its first 500 as summary; when the fallback itself fails,
  the dictionary with empty title, text and summary.
\<close>

theorem search_provider_fails_soft:
  "(\<exists>rs. search ddgs_text max_results query = Inr rs) \<and>
   (\<forall>e. ddgs_text query max_results = Inl e \<longrightarrow> search ddgs_text max_results query = Inr []) \<and>
   (\<exists>c. extract_article_content NEWSPAPER_AVAILABLE newspaper fetch url = Inr c) \<and>
   (\<not> NEWSPAPER_AVAILABLE \<or> (\<exists>e. newspaper url = Inl e) \<longrightarrow>
      extract_article_content NEWSPAPER_AVAILABLE newspaper fetch url = fallback_extract fetch url) \<and>
   (\<forall>page. fetch url = Inr page \<longrightarrow>
      fallback_extract fetch url =
        Inr (Page_Content
          \<lparr>page_title = (case soup_title page of Some t \<Rightarrow> t | None \<Rightarrow> Some ''''),
           page_body = take 5000 (page_text page),
           page_summary = take 500 (page_text page)\<rparr>)) \<and>
   (\<forall>e. fetch url = Inl e \<longrightarrow>
      fallback_extract fetch url =
        Inr (Page_Content \<lparr>page_title = Some '''', page_body = '''', page_summary = ''''\<rparr>))"
proof -
  have s1: "\<exists>rs. search ddgs_text max_results query = Inr rs"
    by (simp add: search_def try_except_returns)
  have s2: "\<forall>e. ddgs_text query max_results = Inl e \<longrightarrow> search ddgs_text max_results query = Inr []"
    by (simp add: search_def search_try_def try_except_def)
  have e1: "\<exists>c. extract_article_content NEWSPAPER_AVAILABLE newspaper fetch url = Inr c"
    by (simp add: extract_article_content_def try_except_returns fallback_extract_returns)
  have e2: "\<not> NEWSPAPER_AVAILABLE \<or> (\<exists>e. newspaper url = Inl e) \<longrightarrow>
      extract_article_content NEWSPAPER_AVAILABLE newspaper fetch url = fallback_extract fetch url"
    by (auto simp: extract_article_content_def try_except_def)
  have f1: "\<forall>page. fetch url = Inr page \<longrightarrow>
      fallback_extract fetch url =
        Inr (Page_Content
          \<lparr>page_title = (case soup_title page of Some t \<Rightarrow> t | None \<Rightarrow> Some ''''),
           page_body = take 5000 (page_text page),
           page_summary = take 500 (page_text page)\<rparr>)"
    by (simp add: fallback_extract_def fallback_extract_try_def try_except_def)
  have f2: "\<forall>e. fetch url = Inl e \<longrightarrow>
      fallback_extract fetch url =
        Inr (Page_Content \<lparr>page_title = Some '''', page_body = '''', page_summary = ''''\<rparr>)"
    by (simp add: fallback_extract_def fallback_extract_try_def try_except_def default_content_def)
  from s1 s2 e1 e2 f1 f2 show ?thesis by blast
qed

theorem search_provider_fails_soft_witness:
  "search failing_search 5 ''llm agents'' = Inr [] \<and>
   extract_article_content True failing_newspaper example_fetch ''http://a.io/x'' =
     Inr (Page_Content
       \<lparr>page_title = Some ''Greetings'', page_body = ''Hello world bye'',
        page_summary = ''Hello world bye''\<rparr>) \<and>
   extract_article_content False failing_newspaper failing_fetch ''http://a.io/x'' =
     Inr (Page_Content \<lparr>page_title = Some '''', page_body = '''', page_summary = ''''\<rparr>)"
proof -
  have "search failing_search 5 ''llm agents'' = Inr []"
    using search_provider_fails_soft [of failing_search 5 "''llm agents''"]
    by (simp add: failing_search_def)
  moreover have "extract_article_content True failing_newspaper example_fetch ''http://a.io/x'' =
     Inr (Page_Content
       \<lparr>page_title = Some ''Greetings'', page_body = ''Hello world bye'',
        page_summary = ''Hello world bye''\<rparr>)"
    using search_provider_fails_soft [of failing_search 5 "''llm agents''" True failing_newspaper
        example_fetch "''http://a.io/x''"]
    by (simp add: failing_newspaper_def example_fetch_def page_text_example)
       (simp add: example_page_def)
  moreover have "extract_article_content False failing_newspaper failing_fetch ''http://a.io/x'' =
     Inr (Page_Content \<lparr>page_title = Some '''', page_body = '''', page_summary = ''''\<rparr>)"
    using search_provider_fails_soft [of failing_search 5 "''llm agents''" False failing_newspaper
        failing_fetch "''http://a.io/x''"]
    by (simp add: failing_fetch_def)
  ultimately show ?thesis by blast
qed

end
